theory Spec2Isabelle
  imports Main "HOL-Library.Word" "HOL-Library.Multiset"
begin

section \<open>The student (alumno) CRUD service of \<^verbatim>\<open>main.py\<close>\<close>

text \<open>
  The service keeps one table, \<^verbatim>\<open>alumnos\<close>, and five request handlers over it.
  Every handler receives a session \<open>db\<close> of its own and runs one read, or one
  read followed by one write and a commit. The embedding below passes the committed
  contents of the table in and out of each handler; a raised exception is the left
  summand of the handler's result, and a handler that raises leaves the table as the
  last commit left it.

  The handlers work on Python's unbounded integers; the table is a table of SQLite,
  whose integer columns hold signed 64-bit values. An integer outside that range
  cannot be bound to a statement: the driver raises \<^verbatim>\<open>OverflowError\<close>, which no
  handler catches.
\<close>

subsection \<open>Data model\<close>

text \<open>\<^verbatim>\<open>class AlumnoCreate(BaseModel)\<close>: the body of a create or update request.\<close>

record AlumnoCreate =
  nombre :: string
  semestre :: int
  activo :: bool


text \<open>
  \<^verbatim>\<open>class Alumno(Base)\<close>: a row of the table. The column \<^verbatim>\<open>id\<close> is the integer
  primary key; it is written \<open>id'\<close> here. The two \<^verbatim>\<open>Integer\<close> columns hold signed
  64-bit values; \<open>sint\<close> reads such a value as the Python integer the handlers see.
\<close>

record Alumno =
  id' :: "64 word"
  nombre :: string
  semestre :: "64 word"
  activo :: bool

text \<open>The key of a row, as an integer.\<close>

definition pk :: "Alumno \<Rightarrow> int" where
  "pk r = sint (id' r)"

text \<open>The integers that can be bound to a statement.\<close>

definition int64 :: "int \<Rightarrow> bool" where
  "int64 n \<longleftrightarrow> - (2 ^ 63) \<le> n \<and> n < 2 ^ 63"

text \<open>
  A session sees the rows of the table, in the order of the engine's row identifiers
  (the order in which a scan of the table returns them).
\<close>

type_synonym Session = "Alumno list"

text \<open>
  What a handler can raise: the \<^verbatim>\<open>HTTPException\<close> of the source; the
  \<^verbatim>\<open>OverflowError\<close> of the driver for an integer that is not \<open>int64\<close>; the
  \<^verbatim>\<open>OperationalError\<close> of an insert that gets no key; and the error of
  \<^verbatim>\<open>db.refresh\<close> when the row to reload is not in the table. Only the first is
  answered as a client error; the others are not caught and end as server errors.
\<close>

datatype error =
    HTTPException (status_code: int) (detail: string)
  | OverflowError
  | OperationalError
  | InvalidRequestError

subsection \<open>The session operations the handlers call\<close>

text \<open>
  The key the engine gives to an inserted row whose \<^verbatim>\<open>id\<close> is not set: an integer
  primary key of SQLite without \<^verbatim>\<open>AUTOINCREMENT\<close> is one more than the largest key
  in the table, and \<open>1\<close> in an empty table.
\<close>

definition next_rowid :: "Session \<Rightarrow> int" where
  "next_rowid db = (case db of [] \<Rightarrow> 1 | r # rs \<Rightarrow> fold max (map pk rs) (pk r) + 1)"

text \<open>
  \<^verbatim>\<open>db.query(Alumno).filter(Alumno.id == alumno_id).first()\<close>. The requested
  identifier is bound to the statement, so it has to be \<open>int64\<close>.
\<close>

definition query_id_first :: "int \<Rightarrow> Session \<Rightarrow> error + Alumno option" where
  "query_id_first alumno_id db =
     (if int64 alumno_id then Inr (find (\<lambda>r. pk r = alumno_id) db) else Inl OverflowError)"

text \<open>\<^verbatim>\<open>db.query(Alumno).filter(Alumno.activo == activo).all()\<close>\<close>

definition query_activo_all :: "bool \<Rightarrow> Session \<Rightarrow> Alumno list" where
  "query_activo_all a db = filter (\<lambda>r. Alumno.activo r = a) db"

text \<open>
  \<^verbatim>\<open>db.add(obj); db.commit()\<close> for a new object with the given column values: one
  \<^verbatim>\<open>INSERT\<close>. The term is bound to the statement, so it has to be \<open>int64\<close>. The
  result is the key of the new row and the table after the commit. When the largest
  key of the table is the largest 64-bit value, so that the next one is out of range,
  the engine looks for an unused key at random and gives up with "database or disk is
  full" when it finds none; the model takes the insert to fail there. No table that the
  handlers build from the empty one in fewer than \<open>2 ^ 63 - 1\<close> creates is such a
  table.
\<close>

definition add_commit :: "string \<Rightarrow> int \<Rightarrow> bool \<Rightarrow> Session \<Rightarrow> error + int \<times> Session" where
  "add_commit n s a db =
     (if \<not> int64 s then Inl OverflowError
      else let k = next_rowid db
           in if \<not> int64 k then Inl OperationalError
              else Inr (k, db @ [\<lparr>id' = word_of_int k, nombre = n, semestre = word_of_int s,
                                  activo = a\<rparr>]))"

text \<open>
  The rows after \<^verbatim>\<open>UPDATE ... WHERE id = k\<close> with the three given values.
\<close>

definition update_rows :: "int \<Rightarrow> string \<Rightarrow> int \<Rightarrow> bool \<Rightarrow> Session \<Rightarrow> Session" where
  "update_rows k n s a db =
     map (\<lambda>r. if pk r = k then r\<lparr>nombre := n, semestre := word_of_int s, activo := a\<rparr> else r)
       db"

text \<open>
  \<^verbatim>\<open>db.commit()\<close> after the three attribute assignments on a loaded object with
  key \<open>k\<close>: one \<^verbatim>\<open>UPDATE\<close>. The term is bound to the statement, so it has to be
  \<open>int64\<close>; the key comes from the table.
\<close>

definition update_commit :: "int \<Rightarrow> string \<Rightarrow> int \<Rightarrow> bool \<Rightarrow> Session \<Rightarrow> error + Session" where
  "update_commit k n s a db =
     (if int64 s then Inr (update_rows k n s a db) else Inl OverflowError)"

text \<open>\<^verbatim>\<open>db.delete(obj); db.commit()\<close> for a loaded object with key \<open>k\<close>:
  one \<^verbatim>\<open>DELETE ... WHERE id = k\<close>.\<close>

definition delete_commit :: "int \<Rightarrow> Session \<Rightarrow> Session" where
  "delete_commit k db = filter (\<lambda>r. pk r \<noteq> k) db"

text \<open>\<^verbatim>\<open>db.refresh(obj)\<close> for an object with key \<open>k\<close>: the row is read again by its
  key, which comes from the table; \<open>None\<close> when the row is no longer there.\<close>

definition refresh :: "int \<Rightarrow> Session \<Rightarrow> Alumno option" where
  "refresh k db = find (\<lambda>r. pk r = k) db"

subsection \<open>The handlers\<close>

definition not_found :: error where
  "not_found = HTTPException 404 ''Alumno no encontrado''"

text \<open>\<^verbatim>\<open>POST /alumnos/\<close>\<close>

definition crear_alumno :: "AlumnoCreate \<Rightarrow> Session \<Rightarrow> (error + Alumno) \<times> Session" where
  "crear_alumno alumno db =
     (case add_commit (AlumnoCreate.nombre alumno) (AlumnoCreate.semestre alumno)
             (AlumnoCreate.activo alumno) db of
        Inl e \<Rightarrow> (Inl e, db)
      | Inr (k, db1) \<Rightarrow>
          (case refresh k db1 of
             None \<Rightarrow> (Inl InvalidRequestError, db1)
           | Some db_alumno \<Rightarrow> (Inr db_alumno, db1)))"

text \<open>\<^verbatim>\<open>GET /alumnos/{alumno_id}\<close>\<close>

definition leer_alumno :: "int \<Rightarrow> Session \<Rightarrow> (error + Alumno) \<times> Session" where
  "leer_alumno alumno_id db =
     (case query_id_first alumno_id db of
        Inl e \<Rightarrow> (Inl e, db)
      | Inr None \<Rightarrow> (Inl not_found, db)
      | Inr (Some alumno) \<Rightarrow> (Inr alumno, db))"

text \<open>\<^verbatim>\<open>GET /alumnos/\<close>, with the query parameter \<^verbatim>\<open>activo: bool = True\<close>; \<open>None\<close> is
  a request without the parameter.\<close>

definition leer_alumnos :: "bool option \<Rightarrow> Session \<Rightarrow> (error + Alumno list) \<times> Session" where
  "leer_alumnos activo_param db =
     (let activo = (case activo_param of None \<Rightarrow> True | Some b \<Rightarrow> b);
          alumnos = query_activo_all activo db
      in (Inr alumnos, db))"

text \<open>\<^verbatim>\<open>PUT /alumnos/{alumno_id}\<close>\<close>

definition actualizar_alumno ::
  "int \<Rightarrow> AlumnoCreate \<Rightarrow> Session \<Rightarrow> (error + Alumno) \<times> Session" where
  "actualizar_alumno alumno_id alumno db =
     (case query_id_first alumno_id db of
        Inl e \<Rightarrow> (Inl e, db)
      | Inr None \<Rightarrow> (Inl not_found, db)
      | Inr (Some db_alumno) \<Rightarrow>
          (case update_commit (pk db_alumno) (AlumnoCreate.nombre alumno)
                  (AlumnoCreate.semestre alumno) (AlumnoCreate.activo alumno) db of
             Inl e \<Rightarrow> (Inl e, db)
           | Inr db1 \<Rightarrow>
               (case refresh (pk db_alumno) db1 of
                  None \<Rightarrow> (Inl InvalidRequestError, db1)
                | Some r \<Rightarrow> (Inr r, db1))))"

text \<open>\<^verbatim>\<open>DELETE /alumnos/{alumno_id}\<close>; the answer is the dictionary
  \<^verbatim>\<open>{"detail": "Alumno eliminado"}\<close>.\<close>

definition eliminar_alumno ::
  "int \<Rightarrow> Session \<Rightarrow> (error + (string \<times> string) list) \<times> Session" where
  "eliminar_alumno alumno_id db =
     (case query_id_first alumno_id db of
        Inl e \<Rightarrow> (Inl e, db)
      | Inr None \<Rightarrow> (Inl not_found, db)
      | Inr (Some alumno) \<Rightarrow>
          (Inr [(''detail'', ''Alumno eliminado'')], delete_commit (pk alumno) db))"

subsection \<open>Vocabulary of the properties\<close>

text \<open>The keys in use, and the primary-key constraint: no key occurs twice.\<close>

definition ids :: "Session \<Rightarrow> int set" where
  "ids db = pk ` set db"

definition pk_unique :: "Session \<Rightarrow> bool" where
  "pk_unique db = distinct (map pk db)"

text \<open>The row a create request asks for, once its key is known.\<close>

definition row_of :: "int \<Rightarrow> AlumnoCreate \<Rightarrow> Alumno" where
  "row_of k alumno =
     \<lparr>id' = word_of_int k, nombre = AlumnoCreate.nombre alumno,
      semestre = word_of_int (AlumnoCreate.semestre alumno),
      activo = AlumnoCreate.activo alumno\<rparr>"

text \<open>The rows whose key is not \<open>k\<close>.\<close>

definition others :: "int \<Rightarrow> Session \<Rightarrow> Alumno list" where
  "others k db = filter (\<lambda>r. pk r \<noteq> k) db"

text \<open>A request to the service, and the table it leaves behind.\<close>

datatype request =
    Crear AlumnoCreate
  | Leer int
  | Listar "bool option"
  | Actualizar int AlumnoCreate
  | Eliminar int

fun after :: "request \<Rightarrow> Session \<Rightarrow> Session" where
  "after (Crear alumno) db = snd (crear_alumno alumno db)"
| "after (Leer k) db = snd (leer_alumno k db)"
| "after (Listar a) db = snd (leer_alumnos a db)"
| "after (Actualizar k alumno) db = snd (actualizar_alumno k alumno db)"
| "after (Eliminar k) db = snd (eliminar_alumno k db)"

text \<open>A sequence of requests, served one after the other.\<close>

definition serve :: "request list \<Rightarrow> Session \<Rightarrow> Session" where
  "serve reqs db = fold after reqs db"

text \<open>A table with one active and one inactive student, used in the examples.\<close>

definition example_table :: Session where
  "example_table =
     [\<lparr>id' = 1, nombre = ''Ana'', semestre = 3, activo = True\<rparr>,
      \<lparr>id' = 2, nombre = ''Luis'', semestre = 5, activo = False\<rparr>]"

text \<open>Five requests, one of each kind, used in the examples.\<close>

definition example_requests :: "request list" where
  "example_requests =
     [Crear \<lparr>AlumnoCreate.nombre = ''Eva'', semestre = 1, activo = True\<rparr>,
      Actualizar 1 \<lparr>AlumnoCreate.nombre = ''Ana'', semestre = 4, activo = False\<rparr>,
      Eliminar 2, Leer 7, Listar None]"

section \<open>Facts about the session operations\<close>

subsection \<open>Keys and the 64-bit range\<close>

lemma sint_word_of_int64: "int64 n \<Longrightarrow> sint (word_of_int n :: 64 word) = n"
  by (simp add: int64_def sint_sbintrunc' signed_take_bit_int_eq_self)

lemma int64_pk: "int64 (pk r)"
  using sint_ge [of "id' r"] sint_lt [of "id' r"] by (simp add: int64_def pk_def)

lemma ids_map: "ids db = set (map pk db)"
  by (simp add: ids_def)

lemma int64_ids: "k \<in> ids db \<Longrightarrow> int64 k"
  by (auto simp: ids_def int64_pk)

lemma pk_row_of: "int64 k \<Longrightarrow> pk (row_of k alumno) = k"
  by (simp add: pk_def row_of_def sint_word_of_int64)

lemma fold_max_ge: "(a::int) \<le> fold max xs a"
  by (induction xs arbitrary: a) (auto intro: order_trans [OF max.cobounded2])

lemma fold_max_upper: "x \<in> set xs \<Longrightarrow> (x::int) \<le> fold max xs a"
proof (induction xs arbitrary: a)
  case Nil
  then show ?case by simp
next
  case (Cons y ys)
  show ?case
  proof (cases "x = y")
    case True
    have "y \<le> max y a" by simp
    also have "\<dots> \<le> fold max ys (max y a)" by (rule fold_max_ge)
    finally show ?thesis using True by simp
  next
    case False
    with Cons.prems have "x \<in> set ys" by simp
    then show ?thesis using Cons.IH by simp
  qed
qed

lemma next_rowid_above: "r \<in> set db \<Longrightarrow> pk r < next_rowid db"
proof (cases db)
  case Nil
  assume "r \<in> set db"
  with Nil show ?thesis by simp
next
  case (Cons r0 rs)
  assume "r \<in> set db"
  with Cons have "r = r0 \<or> pk r \<in> set (map pk rs)" by auto
  then have "pk r \<le> fold max (map pk rs) (pk r0)"
    using fold_max_ge [of "pk r0" "map pk rs"] fold_max_upper [of "pk r" "map pk rs" "pk r0"]
    by blast
  then show ?thesis using Cons by (simp add: next_rowid_def)
qed

lemma next_rowid_fresh: "next_rowid db \<notin> ids db"
proof
  assume "next_rowid db \<in> ids db"
  then obtain r where "r \<in> set db" and "pk r = next_rowid db"
    by (auto simp: ids_def)
  then show False
    using next_rowid_above [of r db] by simp
qed

subsection \<open>Lookups\<close>

lemma find_id_None: "k \<notin> ids db \<Longrightarrow> find (\<lambda>r. pk r = k) db = None"
  by (auto simp: find_None_iff ids_def)

lemma find_id_Some:
  "k \<in> ids db \<Longrightarrow> \<exists>r. find (\<lambda>r. pk r = k) db = Some r \<and> r \<in> set db \<and> pk r = k"
proof -
  assume "k \<in> ids db"
  then have "find (\<lambda>r. pk r = k) db \<noteq> None"
    by (auto simp: find_None_iff ids_def)
  then obtain r where r: "find (\<lambda>r. pk r = k) db = Some r" by auto
  then have "r \<in> set db \<and> pk r = k"
    by (auto simp: find_Some_iff)
  with r show ?thesis by blast
qed

lemma find_id_snoc_fresh:
  "k \<notin> ids db \<Longrightarrow> pk r = k \<Longrightarrow> find (\<lambda>r. pk r = k) (db @ [r]) = Some r"
  by (induction db) (auto simp: ids_def)


lemma find_others: "j \<noteq> k \<Longrightarrow> find (\<lambda>r. pk r = j) (others k db) = find (\<lambda>r. pk r = j) db"
  by (induction db) (auto simp: others_def)

lemma others_fresh: "k \<notin> ids db \<Longrightarrow> others k db = db"
  by (induction db) (auto simp: others_def ids_def)

lemma query_id_first_overflow: "\<not> int64 k \<Longrightarrow> query_id_first k db = Inl OverflowError"
  by (simp add: query_id_first_def)

lemma query_id_first_absent: "int64 k \<Longrightarrow> k \<notin> ids db \<Longrightarrow> query_id_first k db = Inr None"
  by (simp add: query_id_first_def find_id_None)

lemma query_id_first_found:
  "find (\<lambda>r. pk r = k) db = Some r \<Longrightarrow> query_id_first k db = Inr (Some r)"
proof -
  assume f: "find (\<lambda>r. pk r = k) db = Some r"
  then have "pk r = k" by (auto simp: find_Some_iff)
  then have "int64 k" using int64_pk [of r] by simp
  with f show ?thesis by (simp add: query_id_first_def)
qed

subsection \<open>Get-one and list\<close>


lemma leer_alumno_absent:
  "int64 k \<Longrightarrow> k \<notin> ids db \<Longrightarrow> leer_alumno k db = (Inl not_found, db)"
  by (simp add: leer_alumno_def query_id_first_absent)


lemma snd_leer_alumno: "snd (leer_alumno k db) = db"
  by (simp add: leer_alumno_def split: sum.split option.split)

lemma fst_leer_alumno_others:
  assumes "j \<noteq> k" and "others k db1 = others k db"
  shows "fst (leer_alumno j db1) = fst (leer_alumno j db)"
proof -
  have "find (\<lambda>r. pk r = j) db1 = find (\<lambda>r. pk r = j) (others k db1)"
    using assms(1) by (simp add: find_others)
  also have "\<dots> = find (\<lambda>r. pk r = j) db"
    using assms by (simp add: find_others)
  finally show ?thesis
    by (simp add: leer_alumno_def query_id_first_def split: option.split)
qed

lemma leer_alumnos_eq:
  "leer_alumnos p db =
     (Inr (filter (\<lambda>r. Alumno.activo r = (case p of None \<Rightarrow> True | Some b \<Rightarrow> b)) db), db)"
  by (simp add: leer_alumnos_def query_activo_all_def)

lemma snd_leer_alumnos: "snd (leer_alumnos p db) = db"
  by (simp add: leer_alumnos_def)

subsection \<open>Create\<close>

lemma crear_alumno_ok:
  assumes "int64 (AlumnoCreate.semestre alumno)" and "int64 (next_rowid db)"
  shows "crear_alumno alumno db =
           (Inr (row_of (next_rowid db) alumno), db @ [row_of (next_rowid db) alumno])"
proof -
  let ?k = "next_rowid db"
  let ?r = "row_of ?k alumno"
  have "find (\<lambda>r. pk r = ?k) (db @ [?r]) = Some ?r"
    by (rule find_id_snoc_fresh [OF next_rowid_fresh pk_row_of [OF assms(2)]])
  then show ?thesis
    using assms by (simp add: crear_alumno_def add_commit_def refresh_def row_of_def Let_def)
qed

lemma crear_alumno_overflow:
  "\<not> int64 (AlumnoCreate.semestre alumno) \<Longrightarrow> crear_alumno alumno db = (Inl OverflowError, db)"
  by (simp add: crear_alumno_def add_commit_def)

lemma crear_alumno_full:
  "int64 (AlumnoCreate.semestre alumno) \<Longrightarrow> \<not> int64 (next_rowid db) \<Longrightarrow>
   crear_alumno alumno db = (Inl OperationalError, db)"
  by (simp add: crear_alumno_def add_commit_def Let_def)

lemma crear_alumno_Inr:
  assumes "crear_alumno alumno db = (Inr r, db1)"
  shows "int64 (AlumnoCreate.semestre alumno) \<and> int64 (next_rowid db)
       \<and> r = row_of (next_rowid db) alumno \<and> db1 = db @ [r]"
proof (cases "int64 (AlumnoCreate.semestre alumno)")
  case False
  with assms show ?thesis by (simp add: crear_alumno_overflow)
next
  case s: True
  show ?thesis
  proof (cases "int64 (next_rowid db)")
    case False
    with s assms show ?thesis by (simp add: crear_alumno_full)
  next
    case True
    with s assms show ?thesis by (auto simp: crear_alumno_ok)
  qed
qed

lemma snd_crear_alumno:
  "snd (crear_alumno alumno db) =
     (if int64 (AlumnoCreate.semestre alumno) \<and> int64 (next_rowid db)
      then db @ [row_of (next_rowid db) alumno] else db)"
proof (cases "int64 (AlumnoCreate.semestre alumno)")
  case False
  then show ?thesis by (simp add: crear_alumno_overflow)
next
  case s: True
  show ?thesis
  proof (cases "int64 (next_rowid db)")
    case False
    with s show ?thesis by (simp add: crear_alumno_full)
  next
    case True
    with s show ?thesis by (simp add: crear_alumno_ok)
  qed
qed

lemma others_snd_crear_alumno:
  "others (next_rowid db) (snd (crear_alumno alumno db)) = db"
  using next_rowid_fresh [of db] others_fresh [of "next_rowid db" db]
  by (simp add: snd_crear_alumno pk_row_of) (simp add: others_def pk_row_of)

subsection \<open>Update\<close>

lemma overwrite_row:
  "pk r = k \<Longrightarrow>
   r\<lparr>nombre := AlumnoCreate.nombre alumno,
     semestre := word_of_int (AlumnoCreate.semestre alumno),
     activo := AlumnoCreate.activo alumno\<rparr> = row_of k alumno"
  by (cases r) (auto simp: row_of_def pk_def)

lemma find_update_rows:
  "find (\<lambda>r. pk r = k) (update_rows k n s a db) =
     map_option (\<lambda>r. r\<lparr>nombre := n, semestre := word_of_int s, activo := a\<rparr>)
       (find (\<lambda>r. pk r = k) db)"
  by (induction db) (auto simp: update_rows_def pk_def)

lemma map_id_update_rows: "map id' (update_rows k n s a db) = map id' db"
  by (induction db) (auto simp: update_rows_def)

lemma map_pk_update_rows: "map pk (update_rows k n s a db) = map pk db"
  by (induction db) (auto simp: update_rows_def pk_def)

lemma others_update_rows: "others k (update_rows k n s a db) = others k db"
  by (induction db) (auto simp: update_rows_def others_def pk_def)

lemma update_rows_absent: "k \<notin> ids db \<Longrightarrow> update_rows k n s a db = db"
  by (induction db) (auto simp: update_rows_def ids_def)

lemma actualizar_alumno_overflow:
  "\<not> int64 k \<Longrightarrow> actualizar_alumno k alumno db = (Inl OverflowError, db)"
  by (simp add: actualizar_alumno_def query_id_first_overflow)

lemma actualizar_alumno_absent:
  "int64 k \<Longrightarrow> k \<notin> ids db \<Longrightarrow> actualizar_alumno k alumno db = (Inl not_found, db)"
  by (simp add: actualizar_alumno_def query_id_first_absent)

lemma actualizar_alumno_present:
  assumes "k \<in> ids db" and "int64 (AlumnoCreate.semestre alumno)"
  shows "actualizar_alumno k alumno db =
           (Inr (row_of k alumno),
            update_rows k (AlumnoCreate.nombre alumno) (AlumnoCreate.semestre alumno)
              (AlumnoCreate.activo alumno) db)"
proof -
  from find_id_Some [OF assms(1)] obtain r0
    where r0: "find (\<lambda>r. pk r = k) db = Some r0" and k: "pk r0 = k"
    by blast
  let ?db1 = "update_rows k (AlumnoCreate.nombre alumno) (AlumnoCreate.semestre alumno)
                (AlumnoCreate.activo alumno) db"
  have "refresh k ?db1 = Some (row_of k alumno)"
    using r0 overwrite_row [OF k, of alumno]
    by (simp add: refresh_def find_update_rows)
  then show ?thesis
    using query_id_first_found [OF r0] k assms(2)
    by (simp add: actualizar_alumno_def update_commit_def)
qed

lemma actualizar_alumno_present_overflow:
  assumes "k \<in> ids db" and "\<not> int64 (AlumnoCreate.semestre alumno)"
  shows "actualizar_alumno k alumno db = (Inl OverflowError, db)"
proof -
  from find_id_Some [OF assms(1)] obtain r0
    where r0: "find (\<lambda>r. pk r = k) db = Some r0"
    by blast
  show ?thesis
    using query_id_first_found [OF r0] assms(2)
    by (simp add: actualizar_alumno_def update_commit_def)
qed

lemma snd_actualizar_alumno:
  "snd (actualizar_alumno k alumno db) =
     (if int64 (AlumnoCreate.semestre alumno)
      then update_rows k (AlumnoCreate.nombre alumno) (AlumnoCreate.semestre alumno)
             (AlumnoCreate.activo alumno) db
      else db)"
proof (cases "k \<in> ids db")
  case True
  then show ?thesis
    by (simp add: actualizar_alumno_present actualizar_alumno_present_overflow)
next
  case False
  then have "snd (actualizar_alumno k alumno db) = db"
    by (cases "int64 k") (simp_all add: actualizar_alumno_absent actualizar_alumno_overflow)
  with False show ?thesis by (simp add: update_rows_absent)
qed

subsection \<open>Delete\<close>

lemma ids_delete_commit: "ids (delete_commit k db) = ids db - {k}"
  by (auto simp: ids_def delete_commit_def)

lemma others_delete_commit: "others k (delete_commit k db) = others k db"
  by (simp add: others_def delete_commit_def)

lemma eliminar_alumno_overflow: "\<not> int64 k \<Longrightarrow> eliminar_alumno k db = (Inl OverflowError, db)"
  by (simp add: eliminar_alumno_def query_id_first_overflow)

lemma eliminar_alumno_absent:
  "int64 k \<Longrightarrow> k \<notin> ids db \<Longrightarrow> eliminar_alumno k db = (Inl not_found, db)"
  by (simp add: eliminar_alumno_def query_id_first_absent)

lemma eliminar_alumno_present:
  assumes "k \<in> ids db"
  shows "eliminar_alumno k db = (Inr [(''detail'', ''Alumno eliminado'')], delete_commit k db)"
proof -
  from find_id_Some [OF assms] obtain r0
    where r0: "find (\<lambda>r. pk r = k) db = Some r0" and k: "pk r0 = k"
    by blast
  show ?thesis
    using query_id_first_found [OF r0] k by (simp add: eliminar_alumno_def)
qed

lemma snd_eliminar_alumno: "snd (eliminar_alumno k db) = delete_commit k db"
proof (cases "k \<in> ids db")
  case True
  then show ?thesis by (simp add: eliminar_alumno_present)
next
  case False
  then have "delete_commit k db = db"
    using others_fresh [of k db] by (simp add: others_def delete_commit_def)
  moreover have "snd (eliminar_alumno k db) = db"
    using False
    by (cases "int64 k") (simp_all add: eliminar_alumno_absent eliminar_alumno_overflow)
  ultimately show ?thesis by simp
qed

subsection \<open>Requests\<close>

lemma pk_unique_after: "pk_unique db \<Longrightarrow> pk_unique (after req db)"
proof (cases req)
  case (Crear alumno)
  assume "pk_unique db"
  moreover have "next_rowid db \<notin> pk ` set db"
    using next_rowid_fresh [of db] by (simp add: ids_def)
  ultimately show ?thesis
    using Crear by (simp add: snd_crear_alumno pk_unique_def pk_row_of)
next
  case (Actualizar k alumno)
  assume "pk_unique db"
  then show ?thesis
    using Actualizar by (simp add: snd_actualizar_alumno pk_unique_def map_pk_update_rows)
next
  case (Eliminar k)
  assume "pk_unique db"
  then show ?thesis
    using Eliminar
    by (simp add: snd_eliminar_alumno pk_unique_def delete_commit_def distinct_map_filter)
qed (simp_all add: snd_leer_alumno snd_leer_alumnos)

lemma ids_prefix_after:
  "\<forall>k. req \<noteq> Eliminar k \<Longrightarrow> take (length db) (map id' (after req db)) = map id' db"
  by (cases req) (simp_all add: snd_crear_alumno snd_leer_alumno snd_leer_alumnos
      snd_actualizar_alumno map_id_update_rows)

lemma ids_snd_eliminar_alumno:
  "map pk (after (Eliminar k) db) = filter (\<lambda>i. i \<noteq> k) (map pk db)"
  by (simp add: snd_eliminar_alumno delete_commit_def filter_map comp_def)

lemma ids_after_keep: "k \<in> ids db \<Longrightarrow> req \<noteq> Eliminar k \<Longrightarrow> k \<in> ids (after req db)"
proof (cases req)
  case (Crear alumno)
  assume "k \<in> ids db"
  then show ?thesis using Crear by (simp add: snd_crear_alumno ids_def)
next
  case (Actualizar j alumno)
  assume k: "k \<in> ids db"
  have "map pk (after req db) = map pk db"
    using Actualizar by (simp add: snd_actualizar_alumno map_pk_update_rows)
  then have "ids (after req db) = ids db"
    by (simp only: ids_map)
  with k show ?thesis by simp
next
  case (Eliminar j)
  assume "k \<in> ids db" and "req \<noteq> Eliminar k"
  then show ?thesis using Eliminar by (simp add: snd_eliminar_alumno ids_delete_commit)
qed (simp_all add: snd_leer_alumno snd_leer_alumnos)

lemma pk_unique_serve: "pk_unique db \<Longrightarrow> pk_unique (serve reqs db)"
  unfolding serve_def
  by (induction reqs arbitrary: db) (simp_all add: pk_unique_after)

lemma ids_serve_keep:
  "k \<in> ids db \<Longrightarrow> Eliminar k \<notin> set reqs \<Longrightarrow> k \<in> ids (serve reqs db)"
  unfolding serve_def
proof (induction reqs arbitrary: db)
  case Nil
  then show ?case by simp
next
  case (Cons req reqs)
  from Cons.prems have "req \<noteq> Eliminar k" and rest: "Eliminar k \<notin> set reqs" by auto
  with Cons.prems(1) have "k \<in> ids (after req db)" by (simp add: ids_after_keep)
  from Cons.IH [OF this rest] show ?case by simp
qed

section \<open>The properties\<close>







text \<open>
  C3. Deleting an identifier that is present succeeds and leaves a table without that
  identifier: get-one on it then raises not-found, and a second delete raises
  not-found too and leaves the table of the first delete unchanged.
\<close>

theorem delete_then_absent:
  assumes "k \<in> ids db"
  shows "\<exists>c db1. eliminar_alumno k db = (Inr c, db1)
           \<and> k \<notin> ids db1
           \<and> leer_alumno k db1 = (Inl not_found, db1)
           \<and> eliminar_alumno k db1 = (Inl not_found, db1)
           \<and> status_code not_found = 404"
proof -
  let ?db1 = "delete_commit k db"
  have range: "int64 k" by (rule int64_ids [OF assms])
  have absent: "k \<notin> ids ?db1" by (simp add: ids_delete_commit)
  have "eliminar_alumno k db = (Inr [(''detail'', ''Alumno eliminado'')], ?db1)"
    by (rule eliminar_alumno_present [OF assms])
  moreover have "leer_alumno k ?db1 = (Inl not_found, ?db1)"
    by (rule leer_alumno_absent [OF range absent])
  moreover have "eliminar_alumno k ?db1 = (Inl not_found, ?db1)"
    by (rule eliminar_alumno_absent [OF range absent])
  ultimately show ?thesis
    using absent by (simp add: not_found_def)
qed

theorem delete_then_absent_witness:
  "1 \<in> ids example_table
   \<and> (\<exists>c db1. eliminar_alumno 1 example_table = (Inr c, db1)
           \<and> 1 \<notin> ids db1
           \<and> leer_alumno 1 db1 = (Inl not_found, db1)
           \<and> eliminar_alumno 1 db1 = (Inl not_found, db1)
           \<and> status_code not_found = 404)"
proof -
  have h: "1 \<in> ids example_table" by (simp add: ids_def example_table_def pk_def)
  show ?thesis
    using h delete_then_absent [OF h] by simp
qed

text \<open>
  C4. For every table and filter value, the list handler returns normally, with
  exactly the records of the table whose active flag equals the filter, each as often
  as the table holds it, and leaves the table as it was; the answer is the empty list
  when no record matches; a request without the parameter is answered as one
  with the filter \<open>True\<close>.
\<close>

theorem list_returns_matching:
  "\<exists>rs. leer_alumnos (Some f) db = (Inr rs, db)
      \<and> mset rs = filter_mset (\<lambda>r. Alumno.activo r = f) (mset db)
      \<and> set rs = {r \<in> set db. Alumno.activo r = f}
      \<and> (f \<notin> Alumno.activo ` set db \<longrightarrow> rs = [])
      \<and> leer_alumnos None db = leer_alumnos (Some True) db"
proof -
  let ?rs = "filter (\<lambda>r. Alumno.activo r = f) db"
  have "leer_alumnos (Some f) db = (Inr ?rs, db)"
    by (simp add: leer_alumnos_eq)
  moreover have "mset ?rs = filter_mset (\<lambda>r. Alumno.activo r = f) (mset db)"
    by simp
  moreover have "set ?rs = {r \<in> set db. Alumno.activo r = f}"
    by simp
  moreover have "f \<notin> Alumno.activo ` set db \<longrightarrow> ?rs = []"
    by (auto simp: filter_empty_conv)
  moreover have "leer_alumnos None db = leer_alumnos (Some True) db"
    by (simp add: leer_alumnos_eq)
  ultimately show ?thesis by blast
qed

theorem list_returns_matching_witness:
  "leer_alumnos None example_table
     = (Inr [\<lparr>id' = 1, nombre = ''Ana'', semestre = 3, activo = True\<rparr>], example_table)
   \<and> leer_alumnos (Some False) example_table
     = (Inr [\<lparr>id' = 2, nombre = ''Luis'', semestre = 5, activo = False\<rparr>], example_table)
   \<and> False \<notin> Alumno.activo ` set [\<lparr>id' = 1, nombre = ''Ana'', semestre = 3, activo = True\<rparr>]
   \<and> leer_alumnos (Some False) [\<lparr>id' = 1, nombre = ''Ana'', semestre = 3, activo = True\<rparr>]
     = (Inr [], [\<lparr>id' = 1, nombre = ''Ana'', semestre = 3, activo = True\<rparr>])"
proof -
  have h: "False \<notin> Alumno.activo ` set [\<lparr>id' = 1, nombre = ''Ana'', semestre = 3, activo = True\<rparr>]"
    by simp
  show ?thesis
    using h list_returns_matching [of False "[\<lparr>id' = 1, nombre = ''Ana'', semestre = 3, activo = True\<rparr>]"]
      list_returns_matching [of False example_table]
      list_returns_matching [of True example_table]
    by (auto simp: example_table_def)
qed










text \<open>
  C8. Every request preserves the primary-key constraint, and the constraint holds
  after any sequence of requests served from the empty table. A create that returns a
  record has put it in the table, under the key it returns, and create does return one
  whenever the term and the next key are in the signed 64-bit range. A request other
  than a delete leaves the key of every row as it was, row by row; a delete of \<open>k\<close>
  leaves the keys other than \<open>k\<close>, in their order. A key that is present stays
  present after every request other than a delete of that key, and so after every
  sequence of requests that has no delete of it.
\<close>

theorem store_invariant:
  "(pk_unique db \<longrightarrow> pk_unique (after req db))
   \<and> (int64 (AlumnoCreate.semestre alumno) \<and> int64 (next_rowid db) \<longrightarrow>
        (\<exists>r. fst (crear_alumno alumno db) = Inr r
           \<and> r \<in> set (after (Crear alumno) db)
           \<and> pk r \<in> ids (after (Crear alumno) db)
           \<and> pk r \<notin> ids db))
   \<and> (crear_alumno alumno db = (Inr r', db') \<longrightarrow>
        db' = after (Crear alumno) db \<and> r' \<in> set db' \<and> pk r' \<in> ids db')
   \<and> ((\<forall>j. req \<noteq> Eliminar j) \<longrightarrow> take (length db) (map id' (after req db)) = map id' db)
   \<and> map pk (after (Eliminar k) db) = filter (\<lambda>i. i \<noteq> k) (map pk db)
   \<and> (k \<in> ids db \<and> req \<noteq> Eliminar k \<longrightarrow> k \<in> ids (after req db))
   \<and> pk_unique (serve reqs [])
   \<and> (k \<in> ids db \<and> Eliminar k \<notin> set reqs \<longrightarrow> k \<in> ids (serve reqs db))"
proof -
  let ?r = "row_of (next_rowid db) alumno"
  have "pk_unique []" by (simp add: pk_unique_def)
  then have reach: "pk_unique (serve reqs [])" by (rule pk_unique_serve)
  have made: "int64 (AlumnoCreate.semestre alumno) \<and> int64 (next_rowid db) \<longrightarrow>
        (\<exists>r. fst (crear_alumno alumno db) = Inr r
           \<and> r \<in> set (after (Crear alumno) db)
           \<and> pk r \<in> ids (after (Crear alumno) db)
           \<and> pk r \<notin> ids db)"
  proof
    assume h: "int64 (AlumnoCreate.semestre alumno) \<and> int64 (next_rowid db)"
    then have c: "crear_alumno alumno db = (Inr ?r, db @ [?r])"
      by (simp add: crear_alumno_ok)
    have "pk ?r \<notin> ids db"
      using h next_rowid_fresh [of db] by (simp add: pk_row_of)
    with c show "\<exists>r. fst (crear_alumno alumno db) = Inr r
           \<and> r \<in> set (after (Crear alumno) db)
           \<and> pk r \<in> ids (after (Crear alumno) db)
           \<and> pk r \<notin> ids db"
      by (simp add: ids_def)
  qed
  have kept: "crear_alumno alumno db = (Inr r', db') \<longrightarrow>
        db' = after (Crear alumno) db \<and> r' \<in> set db' \<and> pk r' \<in> ids db'"
  proof
    assume c: "crear_alumno alumno db = (Inr r', db')"
    from crear_alumno_Inr [OF c] have "db' = db @ [r']" by simp
    with c show "db' = after (Crear alumno) db \<and> r' \<in> set db' \<and> pk r' \<in> ids db'"
      by (simp add: ids_def)
  qed
  show ?thesis
    using reach made kept pk_unique_after [of db req] ids_prefix_after [of req db]
      ids_snd_eliminar_alumno [of k db] ids_after_keep [of k db req]
      ids_serve_keep [of k db reqs]
    by blast
qed

theorem store_invariant_witness:
  "pk_unique example_table
   \<and> pk_unique (after (Eliminar 2) example_table)
   \<and> int64 1 \<and> int64 (next_rowid example_table)
   \<and> 3 \<in> ids (after (Crear \<lparr>AlumnoCreate.nombre = ''Eva'', semestre = 1, activo = True\<rparr>)
                 example_table)
   \<and> (\<forall>j. Actualizar 1 \<lparr>AlumnoCreate.nombre = ''Ana'', semestre = 4, activo = False\<rparr>
          \<noteq> Eliminar j)
   \<and> take (length example_table) (map id' (after
          (Actualizar 1 \<lparr>AlumnoCreate.nombre = ''Ana'', semestre = 4, activo = False\<rparr>)
          example_table)) = [1, 2]
   \<and> map pk (after (Eliminar 2) example_table) = [1]
   \<and> 1 \<in> ids example_table \<and> Eliminar 2 \<noteq> Eliminar 1
   \<and> 1 \<in> ids (after (Eliminar 2) example_table)
   \<and> Eliminar 1 \<notin> set example_requests
   \<and> 1 \<in> ids (serve example_requests example_table)
   \<and> pk_unique (serve example_requests [])"
proof -
  let ?eva = "\<lparr>AlumnoCreate.nombre = ''Eva'', semestre = 1, activo = True\<rparr>"
  let ?ana = "\<lparr>AlumnoCreate.nombre = ''Ana'', semestre = 4, activo = False\<rparr>"
  have h1: "pk_unique example_table" by (simp add: pk_unique_def example_table_def pk_def)
  have h2: "1 \<in> ids example_table" by (simp add: ids_def example_table_def pk_def)
  have h3: "Eliminar 1 \<notin> set example_requests" by (simp add: example_requests_def)
  have h4: "filter (\<lambda>i. i \<noteq> 2) (map pk example_table) = [1]"
    by (simp add: example_table_def pk_def)
  have h5: "map id' example_table = [1, 2]" by (simp add: example_table_def)
  have h6: "int64 1" by (simp add: int64_def)
  have h7: "next_rowid example_table = 3" by (simp add: next_rowid_def example_table_def pk_def)
  have h8: "int64 (next_rowid example_table)" by (simp add: h7 int64_def)
  have a: "pk_unique (after (Eliminar 2) example_table)
      \<and> map pk (after (Eliminar 2) example_table) = [1]
      \<and> 1 \<in> ids (after (Eliminar 2) example_table)
      \<and> 1 \<in> ids (serve example_requests example_table)
      \<and> pk_unique (serve example_requests [])"
    using h1 h2 h3 h4
      store_invariant [of example_table "Eliminar 2" ?eva _ _ 2 example_requests]
      store_invariant [of example_table "Eliminar 2" ?eva _ _ 1 example_requests]
    by simp
  have b: "take (length example_table) (map id' (after (Actualizar 1 ?ana) example_table))
      = [1, 2]"
    using h5 store_invariant [of example_table "Actualizar 1 ?ana" ?eva _ _ 1 example_requests]
    by simp
  have c: "3 \<in> ids (after (Crear ?eva) example_table)"
  proof -
    from store_invariant [of example_table "Eliminar 2" ?eva _ _ 2 example_requests] h6 h8
    obtain r where "fst (crear_alumno ?eva example_table) = Inr r"
      and "pk r \<in> ids (after (Crear ?eva) example_table)"
      by auto
    moreover from this(1) have "pk r = next_rowid example_table"
      using crear_alumno_Inr [of ?eva example_table r "snd (crear_alumno ?eva example_table)"]
        pk_row_of [OF h8, of ?eva]
      by (simp add: prod_eq_iff)
    ultimately show ?thesis by (simp add: h7)
  qed
  show ?thesis using h1 h2 h3 h6 h8 a b c by simp
qed

text \<open>
  C9. Create either leaves the table as it was or appends one row with a new key,
  and it appends whenever the term and the next key are in the signed 64-bit range;
  the earlier rows are as they were. Update and delete of \<open>k\<close> leave the rows with
  another key as they were, and update keeps the number of rows. So get-one on another
  key answers after the request as it did before.
\<close>

theorem mutations_touch_one_row:
  "(snd (crear_alumno alumno db) = db
      \<or> (\<exists>r. crear_alumno alumno db = (Inr r, db @ [r]) \<and> pk r \<notin> ids db))
   \<and> (int64 (AlumnoCreate.semestre alumno) \<and> int64 (next_rowid db) \<longrightarrow>
        (\<exists>r. crear_alumno alumno db = (Inr r, db @ [r]) \<and> pk r \<notin> ids db))
   \<and> take (length db) (snd (crear_alumno alumno db)) = db
   \<and> others k (snd (actualizar_alumno k alumno db)) = others k db
   \<and> length (snd (actualizar_alumno k alumno db)) = length db
   \<and> others k (snd (eliminar_alumno k db)) = others k db
   \<and> (j \<in> ids db \<longrightarrow>
        fst (leer_alumno j (snd (crear_alumno alumno db))) = fst (leer_alumno j db))
   \<and> (j \<noteq> k \<longrightarrow>
        fst (leer_alumno j (snd (actualizar_alumno k alumno db))) = fst (leer_alumno j db)
        \<and> fst (leer_alumno j (snd (eliminar_alumno k db))) = fst (leer_alumno j db))"
proof -
  let ?r = "row_of (next_rowid db) alumno"
  have c2: "int64 (AlumnoCreate.semestre alumno) \<and> int64 (next_rowid db) \<longrightarrow>
        (\<exists>r. crear_alumno alumno db = (Inr r, db @ [r]) \<and> pk r \<notin> ids db)"
  proof
    assume h: "int64 (AlumnoCreate.semestre alumno) \<and> int64 (next_rowid db)"
    then have "crear_alumno alumno db = (Inr ?r, db @ [?r])"
      by (simp add: crear_alumno_ok)
    moreover have "pk ?r \<notin> ids db"
      using h next_rowid_fresh [of db] by (simp add: pk_row_of)
    ultimately show "\<exists>r. crear_alumno alumno db = (Inr r, db @ [r]) \<and> pk r \<notin> ids db"
      by blast
  qed
  have c1: "snd (crear_alumno alumno db) = db
      \<or> (\<exists>r. crear_alumno alumno db = (Inr r, db @ [r]) \<and> pk r \<notin> ids db)"
  proof (cases "int64 (AlumnoCreate.semestre alumno) \<and> int64 (next_rowid db)")
    case True
    with c2 show ?thesis by blast
  next
    case False
    then have "snd (crear_alumno alumno db) = db"
      by (simp only: snd_crear_alumno if_False)
    then show ?thesis by (rule disjI1)
  qed
  have c3: "take (length db) (snd (crear_alumno alumno db)) = db"
    by (simp add: snd_crear_alumno)
  have u: "others k (snd (actualizar_alumno k alumno db)) = others k db"
    by (simp add: snd_actualizar_alumno others_update_rows)
  have l: "length (snd (actualizar_alumno k alumno db)) = length db"
    by (simp add: snd_actualizar_alumno update_rows_def)
  have d: "others k (snd (eliminar_alumno k db)) = others k db"
    by (simp add: snd_eliminar_alumno others_delete_commit)
  have gc: "j \<in> ids db \<longrightarrow>
        fst (leer_alumno j (snd (crear_alumno alumno db))) = fst (leer_alumno j db)"
  proof
    assume "j \<in> ids db"
    then have "j \<noteq> next_rowid db" using next_rowid_fresh [of db] by auto
    moreover have "others (next_rowid db) (snd (crear_alumno alumno db))
        = others (next_rowid db) db"
      using next_rowid_fresh [of db] by (simp add: others_snd_crear_alumno others_fresh)
    ultimately show "fst (leer_alumno j (snd (crear_alumno alumno db))) = fst (leer_alumno j db)"
      by (rule fst_leer_alumno_others)
  qed
  have gu: "j \<noteq> k \<longrightarrow>
        fst (leer_alumno j (snd (actualizar_alumno k alumno db))) = fst (leer_alumno j db)"
    using fst_leer_alumno_others [OF _ u, of j] by blast
  have gd: "j \<noteq> k \<longrightarrow>
        fst (leer_alumno j (snd (eliminar_alumno k db))) = fst (leer_alumno j db)"
    using fst_leer_alumno_others [OF _ d, of j] by blast
  show ?thesis using c1 c2 c3 u l d gc gu gd by simp
qed

theorem mutations_touch_one_row_witness:
  "2 \<in> ids example_table \<and> (2::int) \<noteq> 1
   \<and> int64 1 \<and> int64 (next_rowid example_table)
   \<and> take (length example_table) (snd (crear_alumno
        \<lparr>AlumnoCreate.nombre = ''Eva'', semestre = 1, activo = True\<rparr> example_table))
      = example_table
   \<and> fst (leer_alumno 2 (snd (crear_alumno
        \<lparr>AlumnoCreate.nombre = ''Eva'', semestre = 1, activo = True\<rparr> example_table)))
      = Inr \<lparr>id' = 2, nombre = ''Luis'', semestre = 5, activo = False\<rparr>
   \<and> fst (leer_alumno 2 (snd (actualizar_alumno 1
        \<lparr>AlumnoCreate.nombre = ''Eva'', semestre = 1, activo = True\<rparr> example_table)))
      = Inr \<lparr>id' = 2, nombre = ''Luis'', semestre = 5, activo = False\<rparr>
   \<and> fst (leer_alumno 2 (snd (eliminar_alumno 1 example_table)))
      = Inr \<lparr>id' = 2, nombre = ''Luis'', semestre = 5, activo = False\<rparr>"
proof -
  have h: "2 \<in> ids example_table" by (simp add: ids_def example_table_def pk_def)
  have i: "int64 1 \<and> int64 (next_rowid example_table)"
    by (simp add: int64_def next_rowid_def example_table_def pk_def)
  have g: "fst (leer_alumno 2 example_table)
      = Inr \<lparr>id' = 2, nombre = ''Luis'', semestre = 5, activo = False\<rparr>"
    by (simp add: leer_alumno_def query_id_first_def example_table_def pk_def int64_def)
  show ?thesis
    using h i g mutations_touch_one_row
      [of "\<lparr>AlumnoCreate.nombre = ''Eva'', semestre = 1, activo = True\<rparr>" example_table 1 2]
    by simp
qed




end
